theory Spec2Isabelle
  imports Main "HOL-Library.Word"
begin

unbundle bit_operations_syntax

section \<open>The resource host of httpserver (ResourceHost.cpp)\<close>

text \<open>
  A shallow embedding of \<^verbatim>\<open>ResourceHost.cpp\<close>: \<^verbatim>\<open>loadFile\<close>, \<^verbatim>\<open>loadDirectory\<close>,
  \<^verbatim>\<open>listDirectory\<close> and \<^verbatim>\<open>getResource\<close>. A \<^verbatim>\<open>std::string\<close> is a \<open>string\<close>
  (a list of 8-bit characters), a \<^verbatim>\<open>byte\<close> is a \<open>char\<close>, \<^verbatim>\<open>unsigned int\<close> is a
  \<open>32 word\<close>, a \<^verbatim>\<open>NULL\<close> result is \<open>None\<close>. Every function that touches the cache
  takes the host and returns it updated.
\<close>

subsection \<open>The operating system\<close>

type_synonym byte = char

text \<open>
  \<^verbatim>\<open>struct stat\<close>, as far as the code reads it: \<^verbatim>\<open>st_mode\<close> (a 32-bit \<^verbatim>\<open>mode_t\<close>) and
  \<^verbatim>\<open>st_size\<close> (a 64-bit \<^verbatim>\<open>off_t\<close>, as on every LP64 POSIX system). The mode masks have
  the values of \<^verbatim>\<open>sys/stat.h\<close>: \<^verbatim>\<open>S_IRWXU = 0700\<close>, \<^verbatim>\<open>S_IFDIR = 0040000\<close>,
  \<^verbatim>\<open>S_IFREG = 0100000\<close> (octal). The file types of \<^verbatim>\<open>st_mode\<close> are the values under
  the mask \<^verbatim>\<open>S_IFMT = 0170000\<close>: a socket is \<^verbatim>\<open>0140000\<close>, a symbolic link
  \<^verbatim>\<open>0120000\<close>, a block device \<^verbatim>\<open>0060000\<close>, a character device \<^verbatim>\<open>0020000\<close>.
\<close>

record stat =
  st_mode :: "32 word"
  st_size :: "64 word"

definition S_IRWXU :: "32 word" where
  "S_IRWXU = 0x1C0"

definition S_IFDIR :: "32 word" where
  "S_IFDIR = 0x4000"

definition S_IFREG :: "32 word" where
  "S_IFREG = 0x8000"

definition S_IFMT :: "32 word" where
  "S_IFMT = 0xF000"

definition S_IFSOCK :: "32 word" where
  "S_IFSOCK = 0xC000"

text \<open>
  The world outside the host, which the code reads and never writes: what \<^verbatim>\<open>stat\<close>
  answers for a path (\<open>None\<close> is \<open>-1\<close>), what opening a file for reading gives (\<open>None\<close>
  when \<^verbatim>\<open>is_open\<close> is false, otherwise the bytes of the file), whether \<^verbatim>\<open>opendir\<close>
  opens a path (\<open>False\<close> when it returns \<^verbatim>\<open>NULL\<close>), and the entries of the directory at
  a path: the \<^verbatim>\<open>d_name\<close> of each, in the order the \<^verbatim>\<open>readdir\<close> calls on an open
  directory yield them. A directory has its entries whether or not the server can open it.
  \<open>validIndexes\<close> is the array of that name, declared in \<^verbatim>\<open>ResourceHost.h\<close>, and
  \<open>mime_of\<close> is the table behind \<^verbatim>\<open>Resource::guessMimeType\<close>; neither is fixed here.
\<close>

record env =
  validIndexes :: "string list"
  mime_of :: "string \<Rightarrow> string"
  fs_stat :: "string \<Rightarrow> stat option"
  fs_open :: "string \<Rightarrow> byte list option"
  fs_opendir :: "string \<Rightarrow> bool"
  fs_readdir :: "string \<Rightarrow> string list"

text \<open>
  The calls made to the filesystem are recorded in the order they happen. The record is
  not part of the program: it is what lets a theorem say that a call touched the disk,
  or did not.
\<close>

datatype fs_call = Stat string | Open_file string | Opendir string

text \<open>\<^verbatim>\<open>std::string::c_str\<close>, read as a C string: the characters before the first NUL.\<close>

definition c_str :: "string \<Rightarrow> string" where
  "c_str s = takeWhile (\<lambda>c. c \<noteq> CHR 0x00) s"

subsection \<open>Resources\<close>

text \<open>
  Modelled from the spec: the class \<^verbatim>\<open>Resource\<close> (\<^verbatim>\<open>Resource.h\<close>), which
  \<^verbatim>\<open>ResourceHost.cpp\<close> only uses. A Resource holds its location, a directory flag, a
  MIME type and a byte buffer with its length. The constructor sets the location and
  the flag, \<^verbatim>\<open>setData\<close> attaches a buffer and its length, \<^verbatim>\<open>guessMimeType\<close> assigns
  the MIME type from the location, \<^verbatim>\<open>getLocation\<close> returns the location. A cell of a
  buffer is \<open>None\<close> while nothing has been written to it (\<^verbatim>\<open>new byte[len]\<close> does not
  initialise).
\<close>

record Resource =
  location :: string
  directory :: bool
  mimeType :: string
  data :: "byte option list"
  data_size :: "32 word"

definition new_Resource :: "string \<Rightarrow> bool \<Rightarrow> Resource" where
  "new_Resource loc dir =
     \<lparr>location = loc, directory = dir, mimeType = [], data = [], data_size = 0\<rparr>"

definition getLocation :: "Resource \<Rightarrow> string" where
  "getLocation res = location res"

definition guessMimeType :: "env \<Rightarrow> Resource \<Rightarrow> Resource" where
  "guessMimeType w res = res\<lparr>mimeType := mime_of w (location res)\<rparr>"

definition setData :: "byte option list \<Rightarrow> 32 word \<Rightarrow> Resource \<Rightarrow> Resource" where
  "setData d s res = res\<lparr>data := d, data_size := s\<rparr>"

subsection \<open>The host\<close>

record ResourceHost =
  baseDiskPath :: string
  cacheMap :: "string \<rightharpoonup> Resource"
  fs_calls :: "fs_call list"

text \<open>The constructor: the base path, an empty cache.\<close>

definition new_ResourceHost :: "string \<Rightarrow> ResourceHost" where
  "new_ResourceHost base = \<lparr>baseDiskPath = base, cacheMap = Map.empty, fs_calls = []\<rparr>"

definition sys :: "fs_call \<Rightarrow> ResourceHost \<Rightarrow> ResourceHost" where
  "sys c h = h\<lparr>fs_calls := fs_calls h @ [c]\<rparr>"

text \<open>
  \<^verbatim>\<open>cacheMap->insert(pair(k, res))\<close>: \<^verbatim>\<open>std::unordered_map::insert\<close> stores the pair
  only when the key is absent, and leaves the map as it is otherwise.
\<close>

definition cache_insert :: "string \<Rightarrow> Resource \<Rightarrow> ResourceHost \<Rightarrow> ResourceHost" where
  "cache_insert k res h =
     (case cacheMap h k of
        Some old \<Rightarrow> h
      | None \<Rightarrow> h\<lparr>cacheMap := (cacheMap h)(k \<mapsto> res)\<rparr>)"

text \<open>
  \<^verbatim>\<open>byte* fdata = new byte[len]; file.read((char*)fdata, len)\<close>: a buffer of \<open>len\<close>
  cells, of which the first ones hold the bytes the file had to give.
\<close>

definition file_read :: "nat \<Rightarrow> byte list \<Rightarrow> byte option list" where
  "file_read len contents =
     map Some (take len contents) @ replicate (len - length contents) None"

definition loadFile ::
  "env \<Rightarrow> string \<Rightarrow> stat \<Rightarrow> ResourceHost \<Rightarrow> Resource option \<times> ResourceHost" where
  "loadFile w path sb h =
     (if st_mode sb AND S_IRWXU = 0 then (None, h)
      else
        (case fs_open w (c_str path) of
           None \<Rightarrow> (None, sys (Open_file (c_str path)) h)
         | Some contents \<Rightarrow>
             (let len = (ucast (st_size sb) :: 32 word);
                  fdata = file_read (unat len) contents;
                  res = setData fdata len (guessMimeType w (new_Resource path False))
              in (Some res,
                  cache_insert (getLocation res) res (sys (Open_file (c_str path)) h)))))"

text \<open>
  \<^verbatim>\<open>std::string::find_last_of(chars)\<close>: the greatest index of \<open>s\<close> whose character
  occurs in \<open>chars\<close>; \<open>None\<close> is \<^verbatim>\<open>npos\<close>.
\<close>

primrec find_last_of :: "string \<Rightarrow> string \<Rightarrow> nat option" where
  "find_last_of [] chars = None"
| "find_last_of (c # s) chars =
     (case find_last_of s chars of
        Some i \<Rightarrow> Some (Suc i)
      | None \<Rightarrow> if c \<in> set chars then Some 0 else None)"

definition dquote :: char where
  "dquote = CHR 0x22"

text \<open>\<^verbatim>\<open>ent->d_name[0] == '.'\<close>; the first character of an empty name is its NUL.\<close>

definition hidden :: "string \<Rightarrow> bool" where
  "hidden d_name = (case d_name of [] \<Rightarrow> False | c # cs \<Rightarrow> c = CHR ''.'')"

text \<open>
  The line written for one entry: a link to \<open>uri\<close> followed by the name. \<^verbatim>\<open>d_name\<close> is
  a \<^verbatim>\<open>char\<close> array, which \<^verbatim>\<open><<\<close> writes as a C string.
\<close>

definition hyperlink :: "string \<Rightarrow> string \<Rightarrow> string" where
  "hyperlink uri d_name =
     ''<a href='' @ [dquote] @ uri @ c_str d_name @ [dquote] @ ''>'' @ c_str d_name
       @ ''</a><br />''"

text \<open>The \<^verbatim>\<open>while((ent = readdir(dir)) != NULL)\<close> loop, over the entries still to come.\<close>

fun readdir_loop :: "string \<Rightarrow> string list \<Rightarrow> string \<Rightarrow> string" where
  "readdir_loop uri [] ret = ret"
| "readdir_loop uri (d_name # ents) ret =
     (if hidden d_name then readdir_loop uri ents ret
      else readdir_loop uri ents (ret @ hyperlink uri d_name))"

text \<open>
  The URI shown in a listing: \<^verbatim>\<open>path.substr(path.find_last_of(baseDiskPath))\<close>, or
  \<^verbatim>\<open>"?"\<close> when \<^verbatim>\<open>find_last_of\<close> returns \<^verbatim>\<open>npos\<close>.
\<close>

definition listing_uri :: "string \<Rightarrow> string \<Rightarrow> string" where
  "listing_uri base path =
     (case find_last_of path base of None \<Rightarrow> ''?'' | Some uri_pos \<Rightarrow> drop uri_pos path)"

definition listDirectory :: "env \<Rightarrow> ResourceHost \<Rightarrow> string \<Rightarrow> string" where
  "listDirectory w h path =
     (let uri = listing_uri (baseDiskPath h) path;
          ret = ''<html><head><title>'' @ uri @ ''</title></head><body>''
      in if \<not> fs_opendir w (c_str path) then []
         else
           readdir_loop uri (fs_readdir w (c_str path))
               (ret @ ''<h1>Index of '' @ uri @ ''</h1><hr><br />'')
             @ ''</body></html>'')"

text \<open>
  \<^verbatim>\<open>strncpy(dst, src, n)\<close> writes \<open>n\<close> characters: those of the C string \<open>src\<close>, at most
  \<open>n\<close> of them, and NULs after them when \<open>src\<close> is shorter.
\<close>

definition strncpy :: "string \<Rightarrow> nat \<Rightarrow> string" where
  "strncpy src n = take n src @ replicate (n - length src) (CHR 0x00)"

text \<open>
  \<^verbatim>\<open>loadDirectory\<close> after its probing loop: the permission test on the directory, the
  listing, its copy by \<^verbatim>\<open>strncpy(sdata, listing.c_str(), slen)\<close> into a buffer of
  \<^verbatim>\<open>unsigned int slen = listing.length()\<close> characters, the Resource and its insertion. \<^verbatim>\<open>listDirectory\<close> calls \<^verbatim>\<open>opendir\<close>
  once, whatever it returns.
\<close>

definition loadListing ::
  "env \<Rightarrow> string \<Rightarrow> stat \<Rightarrow> ResourceHost \<Rightarrow> Resource option \<times> ResourceHost" where
  "loadListing w path sb h =
     (if st_mode sb AND S_IRWXU = 0 then (None, h)
      else
        (let listing = listDirectory w h path;
             slen = (word_of_nat (length listing) :: 32 word);
             sdata = strncpy (c_str listing) (unat slen);
             res = setData (map Some sdata) slen (new_Resource path True)
         in (Some res, cache_insert (getLocation res) res (sys (Opendir (c_str path)) h))))"

text \<open>
  The loop \<^verbatim>\<open>for(int i = 0; i < numIndexes; i++)\<close> over the names still to probe; it
  returns from \<^verbatim>\<open>loadDirectory\<close> at the first name \<^verbatim>\<open>stat\<close> finds.
\<close>

fun probeIndexes ::
  "env \<Rightarrow> string \<Rightarrow> stat \<Rightarrow> string list \<Rightarrow> ResourceHost \<Rightarrow> Resource option \<times> ResourceHost" where
  "probeIndexes w path sb [] h = loadListing w path sb h"
| "probeIndexes w path sb (ix # rest) h =
     (let loadIndex = path @ ix in
      case fs_stat w (c_str loadIndex) of
        Some sidx \<Rightarrow> loadFile w (c_str loadIndex) sidx (sys (Stat (c_str loadIndex)) h)
      | None \<Rightarrow> probeIndexes w path sb rest (sys (Stat (c_str loadIndex)) h))"

text \<open>
  \<^verbatim>\<open>if(path[path.length()-1] != '/') path += "/"\<close>. The code reads the last character
  of a path that is never empty: \<^verbatim>\<open>getResource\<close>, the only caller, passes the base path
  followed by a URI it has checked to be non-empty.
\<close>

definition with_slash :: "string \<Rightarrow> string" where
  "with_slash path = (if last path \<noteq> CHR ''/'' then path @ ''/'' else path)"

definition loadDirectory ::
  "env \<Rightarrow> string \<Rightarrow> stat \<Rightarrow> ResourceHost \<Rightarrow> Resource option \<times> ResourceHost" where
  "loadDirectory w path sb h = probeIndexes w (with_slash path) sb (validIndexes w) h"

definition getResource ::
  "env \<Rightarrow> string \<Rightarrow> ResourceHost \<Rightarrow> Resource option \<times> ResourceHost" where
  "getResource w uri h =
     (if 255 < length uri \<or> uri = [] then (None, h)
      else
        (let path = baseDiskPath h @ uri in
         case cacheMap h path of
           Some res \<Rightarrow> (Some res, h)
         | None \<Rightarrow>
             (case fs_stat w (c_str path) of
                None \<Rightarrow> (None, sys (Stat (c_str path)) h)
              | Some sb \<Rightarrow>
                  if st_mode sb AND S_IFDIR \<noteq> 0
                  then loadDirectory w path sb (sys (Stat (c_str path)) h)
                  else if st_mode sb AND S_IFREG \<noteq> 0
                  then loadFile w path sb (sys (Stat (c_str path)) h)
                  else (None, sys (Stat (c_str path)) h))))"

subsection \<open>A document root\<close>

text \<open>
  A small tree under \<^verbatim>\<open>/srv\<close>, for the concrete runs below: the root directory with an
  \<^verbatim>\<open>index.html\<close>, a directory \<^verbatim>\<open>old\<close> with an \<^verbatim>\<open>index.htm\<close>, a directory
  \<^verbatim>\<open>docs\<close> without an index, a directory \<^verbatim>\<open>priv\<close> of
  mode \<^verbatim>\<open>0700\<close> that holds a file \<^verbatim>\<open>key\<close> and that the server cannot open, a socket, a file of 4 GiB, and a file whose
  owner may only read it. Modes: \<^verbatim>\<open>0x41ED = 040755\<close>, \<^verbatim>\<open>0x41C0 = 040700\<close>,
  \<^verbatim>\<open>0x81A4 = 0100644\<close>, \<^verbatim>\<open>0x8100 = 0100400\<close>, \<^verbatim>\<open>0xC1ED = 0140755\<close>.
\<close>

definition srv_stat :: "string \<Rightarrow> stat option" where
  "srv_stat p =
     (if p = ''/srv/'' then Some \<lparr>st_mode = 0x41ED, st_size = 4096\<rparr>
      else if p = ''/srv/index.html'' then Some \<lparr>st_mode = 0x81A4, st_size = 2\<rparr>
      else if p = ''/srv/docs'' then Some \<lparr>st_mode = 0x41ED, st_size = 4096\<rparr>
      else if p = ''/srv/docs/'' then Some \<lparr>st_mode = 0x41ED, st_size = 4096\<rparr>
      else if p = ''/srv/old/'' then Some \<lparr>st_mode = 0x41ED, st_size = 4096\<rparr>
      else if p = ''/srv/old/index.htm'' then Some \<lparr>st_mode = 0x81A4, st_size = 3\<rparr>
      else if p = ''/srv/priv'' then Some \<lparr>st_mode = 0x41C0, st_size = 4096\<rparr>
      else if p = ''/srv/sock'' then Some \<lparr>st_mode = 0xC1ED, st_size = 0\<rparr>
      else if p = ''/srv/big'' then Some \<lparr>st_mode = 0x81A4, st_size = 0x100000000\<rparr>
      else if p = ''/srv/ro.txt'' then Some \<lparr>st_mode = 0x8100, st_size = 3\<rparr>
      else None)"

definition srv_open :: "string \<Rightarrow> byte list option" where
  "srv_open p =
     (if p = ''/srv/index.html'' then Some ''hi''
      else if p = ''/srv/old/index.htm'' then Some ''old''
      else if p = ''/srv/big'' then Some (replicate 4294967296 (CHR ''x''))
      else if p = ''/srv/ro.txt'' then Some ''abc''
      else None)"

definition srv_opendir :: "string \<Rightarrow> bool" where
  "srv_opendir p = (p = ''/srv/'' \<or> p = ''/srv/docs/'' \<or> p = ''/srv/old/'')"

definition srv_readdir :: "string \<Rightarrow> string list" where
  "srv_readdir p =
     (if p = ''/srv/''
      then [''.'', ''..'', ''index.html'', ''docs'', ''old'', ''priv'', ''sock'', ''big'', ''ro.txt'']
      else if p = ''/srv/docs/'' then [''.'', ''..'', ''.git'', ''a'', ''b.txt'']
      else if p = ''/srv/old/'' then [''.'', ''..'', ''index.htm'']
      else if p = ''/srv/priv/'' then [''.'', ''..'', ''key'']
      else [])"

definition srv :: env where
  "srv = \<lparr>validIndexes = [''index.html'', ''index.htm''],
          mime_of = (\<lambda>loc. ''text/html''),
          fs_stat = srv_stat, fs_open = srv_open, fs_opendir = srv_opendir,
          fs_readdir = srv_readdir\<rparr>"

definition host0 :: ResourceHost where
  "host0 = new_ResourceHost ''/srv''"

section \<open>Properties\<close>

lemmas model_defs =
  getResource_def loadDirectory_def loadListing_def loadFile_def listDirectory_def
  listing_uri_def with_slash_def file_read_def strncpy_def cache_insert_def sys_def c_str_def
  setData_def guessMimeType_def getLocation_def new_Resource_def new_ResourceHost_def
  hidden_def hyperlink_def dquote_def Let_def S_IRWXU_def S_IFDIR_def S_IFREG_def S_IFMT_def S_IFSOCK_def

lemmas srv_defs = srv_def srv_stat_def srv_open_def srv_opendir_def srv_readdir_def host0_def

subsection \<open>Auxiliary facts\<close>

text \<open>The listing loop appends one link for each entry that is not hidden, in order.\<close>

lemma readdir_loop_eq:
  "readdir_loop uri ents ret =
     ret @ concat (map (hyperlink uri) (filter (\<lambda>d_name. \<not> hidden d_name) ents))"
  by (induction ents arbitrary: ret) simp_all

text \<open>The probing loop, when no name is found and when one is.\<close>

lemma probeIndexes_none:
  "\<forall>p\<in>set ixs. fs_stat w (c_str (path @ p)) = None \<Longrightarrow>
   probeIndexes w path sb ixs h =
     loadListing w path sb
       (h\<lparr>fs_calls := fs_calls h @ map (\<lambda>p. Stat (c_str (path @ p))) ixs\<rparr>)"
  by (induction ixs arbitrary: h) (simp_all add: sys_def Let_def)

lemma probeIndexes_found:
  "\<forall>p\<in>set pre. fs_stat w (c_str (path @ p)) = None \<Longrightarrow>
   fs_stat w (c_str (path @ ix)) = Some sidx \<Longrightarrow>
   probeIndexes w path sb (pre @ ix # post) h =
     loadFile w (c_str (path @ ix)) sidx
       (h\<lparr>fs_calls := fs_calls h @ map (\<lambda>p. Stat (c_str (path @ p))) (pre @ [ix])\<rparr>)"
  by (induction pre arbitrary: h) (simp_all add: sys_def Let_def)

text \<open>A regular file has the bit of \<open>S_IFREG\<close> and not the bit of \<open>S_IFDIR\<close>.\<close>

lemma regular_file_bits:
  "m AND S_IFMT = S_IFREG \<Longrightarrow> m AND S_IFDIR = 0 \<and> m AND S_IFREG \<noteq> 0"
proof -
  assume reg: "m AND S_IFMT = S_IFREG"
  have "m AND S_IFDIR = (m AND S_IFMT) AND S_IFDIR"
    by (simp add: and.assoc S_IFMT_def S_IFDIR_def)
  moreover have "m AND S_IFREG = (m AND S_IFMT) AND S_IFREG"
    by (simp add: and.assoc S_IFMT_def S_IFREG_def)
  ultimately show ?thesis
    using reg by (simp add: S_IFREG_def S_IFDIR_def)
qed

text \<open>\<^verbatim>\<open>unsigned int len = sb.st_size\<close> keeps a size below \<open>2 ^ 32\<close>.\<close>

lemma ucast_size:
  "unat (x :: 64 word) < 2 ^ 32 \<Longrightarrow> unat (ucast x :: 32 word) = unat x"
  by (simp add: unsigned_ucast_eq take_bit_nat_eq_self)

lemma length_file_read: "length (file_read len contents) = len"
  by (simp add: file_read_def)

lemma file_read_all: "length contents = len \<Longrightarrow> file_read len contents = map Some contents"
  by (simp add: file_read_def)

text \<open>
  \<open>find_last_of\<close> stops at the last character of the path when that character occurs in
  the base path. A path that \<open>loadDirectory\<close> passes on ends with a slash, so with a
  base path that contains a slash the URI of every listing is \<^verbatim>\<open>/\<close>.
\<close>

lemma find_last_of_last:
  "path \<noteq> [] \<Longrightarrow> last path \<in> set chars \<Longrightarrow>
   find_last_of path chars = Some (length path - 1)"
proof (induction path)
  case Nil
  then show ?case by simp
next
  case (Cons c path)
  show ?case
  proof (cases "path = []")
    case True
    with Cons.prems show ?thesis by simp
  next
    case False
    with Cons show ?thesis by simp
  qed
qed

lemma listing_uri_slash:
  "path \<noteq> [] \<Longrightarrow> last path = CHR ''/'' \<Longrightarrow> CHR ''/'' \<in> set base \<Longrightarrow>
   listing_uri base path = ''/''"
  by (cases path rule: rev_cases) (simp_all add: listing_uri_def find_last_of_last)

text \<open>
  What a load leaves in the host: the Resource it returns is offered to the cache under
  the Resource's own location, after some calls to the filesystem.
\<close>

lemma loadFile_host:
  "loadFile w path sb h = (Some res, h') \<Longrightarrow>
   \<exists>cs. h' = cache_insert (location res) res (h\<lparr>fs_calls := fs_calls h @ cs\<rparr>)"
  by (auto simp: loadFile_def Let_def getLocation_def sys_def split: if_splits option.splits)

lemma loadListing_host:
  "loadListing w path sb h = (Some res, h') \<Longrightarrow>
   \<exists>cs. h' = cache_insert (location res) res (h\<lparr>fs_calls := fs_calls h @ cs\<rparr>)"
  by (auto simp: loadListing_def Let_def getLocation_def sys_def split: if_splits)

lemma probeIndexes_host:
  "probeIndexes w path sb ixs h = (Some res, h') \<Longrightarrow>
   \<exists>cs. h' = cache_insert (location res) res (h\<lparr>fs_calls := fs_calls h @ cs\<rparr>)"
proof (induction ixs arbitrary: h)
  case Nil
  then show ?case by (simp add: loadListing_host)
next
  case (Cons ix rest)
  show ?case
  proof (cases "fs_stat w (c_str (path @ ix))")
    case None
    with Cons.prems have "probeIndexes w path sb rest (sys (Stat (c_str (path @ ix))) h) = (Some res, h')"
      by (simp add: Let_def)
    from Cons.IH [OF this] show ?thesis
      by (auto simp: sys_def)
  next
    case (Some sidx)
    with Cons.prems
    have "loadFile w (c_str (path @ ix)) sidx (sys (Stat (c_str (path @ ix))) h) = (Some res, h')"
      by (simp add: Let_def)
    from loadFile_host [OF this] show ?thesis
      by (auto simp: sys_def)
  qed
qed

lemma getResource_miss_host:
  assumes "cacheMap h (baseDiskPath h @ uri) = None"
    and "getResource w uri h = (Some res, h')"
  shows "\<exists>cs. h' = cache_insert (location res) res (h\<lparr>fs_calls := fs_calls h @ cs\<rparr>)"
proof -
  from assms obtain sb where
    load: "loadDirectory w (baseDiskPath h @ uri) sb (sys (Stat (c_str (baseDiskPath h @ uri))) h)
             = (Some res, h')
           \<or> loadFile w (baseDiskPath h @ uri) sb (sys (Stat (c_str (baseDiskPath h @ uri))) h)
             = (Some res, h')"
    by (auto simp: getResource_def Let_def split: if_splits option.splits)
  then show ?thesis
  proof
    assume "loadDirectory w (baseDiskPath h @ uri) sb (sys (Stat (c_str (baseDiskPath h @ uri))) h)
              = (Some res, h')"
    from probeIndexes_host [OF this [unfolded loadDirectory_def]] show ?thesis
      by (auto simp: sys_def)
  next
    assume "loadFile w (baseDiskPath h @ uri) sb (sys (Stat (c_str (baseDiskPath h @ uri))) h)
              = (Some res, h')"
    from loadFile_host [OF this] show ?thesis
      by (auto simp: sys_def)
  qed
qed

text \<open>
  A second call is answered from the cache, and changes nothing, whenever the first one
  returned a Resource whose location is the path the lookup uses.
\<close>

lemma getResource_hit:
  "uri \<noteq> [] \<Longrightarrow> length uri \<le> 255 \<Longrightarrow> cacheMap h (baseDiskPath h @ uri) = Some res \<Longrightarrow>
   getResource w uri h = (Some res, h)"
  by (simp add: getResource_def)

lemma getResource_again:
  assumes "getResource w uri h = (Some res, h')"
    and "location res = baseDiskPath h @ uri"
  shows "getResource w uri h' = (Some res, h')"
proof -
  from assms(1) have uri: "uri \<noteq> []" "length uri \<le> 255"
    by (auto simp: getResource_def split: if_splits)
  show ?thesis
  proof (cases "cacheMap h (baseDiskPath h @ uri)")
    case (Some old)
    with assms(1) uri have "h' = h" "old = res"
      by (simp_all add: getResource_def)
    with Some uri show ?thesis
      by (simp add: getResource_hit)
  next
    case None
    from getResource_miss_host [OF None assms(1)] obtain cs where
      "h' = cache_insert (location res) res (h\<lparr>fs_calls := fs_calls h @ cs\<rparr>)"
      by blast
    with None assms(2) have "baseDiskPath h' = baseDiskPath h"
      "cacheMap h' (baseDiskPath h @ uri) = Some res"
      by (simp_all add: cache_insert_def)
    with uri show ?thesis
      by (simp add: getResource_hit)
  qed
qed

subsection \<open>Repeated requests and the cache\<close>

text \<open>
  C1. Two consecutive \<open>getResource\<close> calls with the same URI are to return Resources
  with the same buffer and location, the second one from the cache, with no call to
  the filesystem and no other effect. The code does so only when the Resource is stored
  under the path the lookup uses (\<open>getResource_again\<close>). For the request \<^verbatim>\<open>/\<close> on the
  document root, a directory with an \<^verbatim>\<open>index.html\<close>, it does not: the first call
  stores the Resource under its location \<^verbatim>\<open>/srv/index.html\<close>, the lookup key is
  \<^verbatim>\<open>/srv/\<close>, and the second call misses the cache, calls \<^verbatim>\<open>stat\<close> twice and reads
  the file again.
\<close>

theorem getResource_directory_index_read_twice:
  "(let (r1, h1) = getResource srv ''/'' host0;
        (r2, h2) = getResource srv ''/'' h1
    in r1 = Some \<lparr>location = ''/srv/index.html'', directory = False, mimeType = ''text/html'',
                    data = [Some (CHR ''h''), Some (CHR ''i'')], data_size = 2\<rparr>
       \<and> r2 = r1
       \<and> cacheMap h1 (baseDiskPath host0 @ ''/'') = None
       \<and> cacheMap h1 ''/srv/index.html'' = r1
       \<and> fs_calls h1 = [Stat ''/srv/'', Stat ''/srv/index.html'', Open_file ''/srv/index.html'']
       \<and> fs_calls h2 =
           fs_calls h1 @ [Stat ''/srv/'', Stat ''/srv/index.html'', Open_file ''/srv/index.html''])"
  by (simp add: srv_defs model_defs)

text \<open>
  C10. After a miss and a successful load, the new Resource is to be in the cache under
  the base path followed by the URI, so that the next lookup of that path finds it, with
  one insertion per miss. The code inserts under the location of the Resource
  (\<open>getResource_miss_host\<close>). For the request \<^verbatim>\<open>/docs\<close>, a directory without an index,
  that location is \<^verbatim>\<open>/srv/docs/\<close>: nothing is stored under \<^verbatim>\<open>/srv/docs\<close>, the second
  request lists the directory again, and its insertion finds the key taken and stores
  nothing.
\<close>

theorem getResource_directory_cached_under_other_key:
  "(let (r1, h1) = getResource srv ''/docs'' host0;
        (r2, h2) = getResource srv ''/docs'' h1
    in map_option location r1 = Some ''/srv/docs/''
       \<and> cacheMap h1 (baseDiskPath host0 @ ''/docs'') = None
       \<and> cacheMap h1 ''/srv/docs/'' = r1
       \<and> r2 = r1
       \<and> cacheMap h2 = cacheMap h1
       \<and> fs_calls h2 = fs_calls h1 @
            [Stat ''/srv/docs'', Stat ''/srv/docs/index.html'', Stat ''/srv/docs/index.htm'',
             Opendir ''/srv/docs/''])"
  by (simp add: srv_defs model_defs)

subsection \<open>Loading a file\<close>

text \<open>
  C2. For a regular file that passes the permission test, the first \<open>getResource\<close> call
  is to return a Resource whose buffer has the length the \<^verbatim>\<open>stat\<close> snapshot reports and
  holds that many bytes read from the file. The code keeps the length in
  \<^verbatim>\<open>unsigned int len = sb.st_size\<close>: for the file \<^verbatim>\<open>/srv/big\<close>, of mode \<^verbatim>\<open>0644\<close> and
  \<open>2 ^ 32\<close> bytes, \<open>len\<close> is \<open>0\<close>, and \<open>getResource\<close> returns, as a success, a Resource
  with an empty buffer.
\<close>

theorem getResource_big_file_truncated:
  "fs_stat srv ''/srv/big'' = Some \<lparr>st_mode = 0x81A4, st_size = 4294967296\<rparr>
   \<and> (0x81A4 :: 32 word) AND S_IFMT = S_IFREG
   \<and> (0x81A4 :: 32 word) AND S_IRWXU \<noteq> 0
   \<and> unat (4294967296 :: 64 word) = 4294967296
   \<and> fs_open srv ''/srv/big'' = Some (replicate 4294967296 (CHR ''x''))
   \<and> fst (getResource srv ''/big'' host0) =
       Some \<lparr>location = ''/srv/big'', directory = False, mimeType = ''text/html'',
              data = [], data_size = 0\<rparr>"
  by (simp add: srv_defs model_defs)

text \<open>
  Below \<open>2 ^ 32\<close> bytes the code does load the file: for a valid URI that is not in the
  cache and names a regular file with an owner permission bit, which can be opened, the
  buffer has the snapshot's size and holds the first bytes of the file, with unwritten
  cells after them when the file is shorter than the snapshot said.
\<close>

lemma getResource_loads_small_file:
  assumes "uri \<noteq> []" and "length uri \<le> 255"
    and "cacheMap h (baseDiskPath h @ uri) = None"
    and "fs_stat w (c_str (baseDiskPath h @ uri)) = Some sb"
    and "st_mode sb AND S_IFMT = S_IFREG"
    and "st_mode sb AND S_IRWXU \<noteq> 0"
    and "fs_open w (c_str (baseDiskPath h @ uri)) = Some contents"
    and "unat (st_size sb) < 2 ^ 32"
  shows "\<exists>res h'. getResource w uri h = (Some res, h')
           \<and> location res = baseDiskPath h @ uri \<and> \<not> directory res
           \<and> unat (data_size res) = unat (st_size sb)
           \<and> length (data res) = unat (st_size sb)
           \<and> data res = map Some (take (unat (st_size sb)) contents)
                          @ replicate (unat (st_size sb) - length contents) None
           \<and> (length contents = unat (st_size sb) \<longrightarrow> data res = map Some contents)"
proof -
  from assms(5) have bits: "st_mode sb AND S_IFDIR = 0" "st_mode sb AND S_IFREG \<noteq> 0"
    using regular_file_bits by blast+
  have "getResource w uri h =
          loadFile w (baseDiskPath h @ uri) sb (sys (Stat (c_str (baseDiskPath h @ uri))) h)"
    using assms(1-4) bits by (simp add: getResource_def Let_def)
  then show ?thesis
    using assms(6,7) ucast_size [OF assms(8)]
    by (simp add: loadFile_def Let_def setData_def guessMimeType_def new_Resource_def
        file_read_def)
qed

text \<open>
  C5 (as amended). \<open>loadFile\<close> returns a miss exactly when none of the owner's read,
  write and execute bits is set in the snapshot, or the file cannot be opened. A file
  with at least one of the three bits passes the permission test.
\<close>

theorem loadFile_miss_iff:
  "fst (loadFile w path sb h) = None \<longleftrightarrow>
     st_mode sb AND S_IRWXU = 0 \<or> fs_open w (c_str path) = None"
  by (simp add: loadFile_def Let_def split: option.split)

theorem loadFile_miss_iff_witness:
  "fst (loadFile srv ''/srv/ro.txt'' \<lparr>st_mode = 0x8100, st_size = 3\<rparr> host0) \<noteq> None \<and>
   fst (loadFile srv ''/srv/ro.txt'' \<lparr>st_mode = 0x8007, st_size = 3\<rparr> host0) = None \<and>
   fst (loadFile srv ''/srv/gone'' \<lparr>st_mode = 0x81C0, st_size = 3\<rparr> host0) = None"
  using loadFile_miss_iff [of srv "''/srv/ro.txt''" "\<lparr>st_mode = 0x8100, st_size = 3\<rparr>" host0]
    loadFile_miss_iff [of srv "''/srv/ro.txt''" "\<lparr>st_mode = 0x8007, st_size = 3\<rparr>" host0]
    loadFile_miss_iff [of srv "''/srv/gone''" "\<lparr>st_mode = 0x81C0, st_size = 3\<rparr>" host0]
  by (simp add: srv_defs c_str_def S_IRWXU_def)

text \<open>
  C5 as stated fails for a file of mode \<^verbatim>\<open>0400\<close>: the owner may only read it, the
  three bits are not all set, and \<open>loadFile\<close> returns the file.
\<close>

theorem loadFile_owner_read_only_counterexample:
  "(0x8100 :: 32 word) AND S_IRWXU \<noteq> S_IRWXU \<and>
   fst (loadFile srv ''/srv/ro.txt'' \<lparr>st_mode = 0x8100, st_size = 3\<rparr> host0) =
     Some \<lparr>location = ''/srv/ro.txt'', directory = False, mimeType = ''text/html'',
            data = [Some (CHR ''a''), Some (CHR ''b''), Some (CHR ''c'')], data_size = 3\<rparr>"
  by (simp add: srv_defs model_defs)

subsection \<open>Loading a directory\<close>

text \<open>
  C3. \<open>loadDirectory\<close> probes the index names in the order of \<open>validIndexes\<close>. When
  \<^verbatim>\<open>stat\<close> finds none of the names before \<open>ix\<close> and finds \<open>ix\<close>, the result is what
  \<open>loadFile\<close> returns for that index file and its own snapshot, after one \<^verbatim>\<open>stat\<close> call
  for each name up to \<open>ix\<close>; the names after \<open>ix\<close> are not probed. The snapshot \<open>sb\<close> of
  the directory plays no part: the result is the same for every other snapshot \<open>sb'\<close>,
  whatever its permission bits.
\<close>

theorem loadDirectory_first_index:
  assumes "path \<noteq> []"
    and "validIndexes w = pre @ ix # post"
    and "\<forall>p\<in>set pre. fs_stat w (c_str (with_slash path @ p)) = None"
    and "fs_stat w (c_str (with_slash path @ ix)) = Some sidx"
  shows "loadDirectory w path sb h =
           loadFile w (c_str (with_slash path @ ix)) sidx
             (h\<lparr>fs_calls := fs_calls h
                @ map (\<lambda>p. Stat (c_str (with_slash path @ p))) (pre @ [ix])\<rparr>)
         \<and> loadDirectory w path sb' h = loadDirectory w path sb h"
  using assms(2) probeIndexes_found [OF assms(3) assms(4)]
  by (simp add: loadDirectory_def)

theorem loadDirectory_first_index_witness:
  "loadDirectory srv ''/srv/old'' \<lparr>st_mode = 0x4000, st_size = 0\<rparr> host0 =
     loadFile srv ''/srv/old/index.htm'' \<lparr>st_mode = 0x81A4, st_size = 3\<rparr>
       (host0\<lparr>fs_calls := [Stat ''/srv/old/index.html'', Stat ''/srv/old/index.htm'']\<rparr>)
   \<and> loadDirectory srv ''/srv/old'' \<lparr>st_mode = 0x41ED, st_size = 0\<rparr> host0 =
      loadDirectory srv ''/srv/old'' \<lparr>st_mode = 0x4000, st_size = 0\<rparr> host0
   \<and> fst (loadDirectory srv ''/srv/old'' \<lparr>st_mode = 0x4000, st_size = 0\<rparr> host0) =
      Some \<lparr>location = ''/srv/old/index.htm'', directory = False, mimeType = ''text/html'',
             data = [Some (CHR ''o''), Some (CHR ''l''), Some (CHR ''d'')], data_size = 3\<rparr>"
  using loadDirectory_first_index [of "''/srv/old''" srv "[''index.html'']" "''index.htm''" "[]"
      "\<lparr>st_mode = 0x81A4, st_size = 3\<rparr>" "\<lparr>st_mode = 0x4000, st_size = 0\<rparr>" host0
      "\<lparr>st_mode = 0x41ED, st_size = 0\<rparr>"]
  by (simp add: srv_defs model_defs)

text \<open>
  C8 (as amended). For a directory in which \<^verbatim>\<open>stat\<close> finds no index name, with an
  owner permission bit set, and which \<^verbatim>\<open>opendir\<close> opens: the listing is the page head,
  then, for each entry whose name does not begin with a period and in the order of the
  entries, one line \<^verbatim>\<open><a href="URI NAME">NAME</a><br />\<close>, then the page end; an entry
  whose name begins with a period (\<^verbatim>\<open>.\<close> and \<^verbatim>\<open>..\<close> among them) gets no line.
  \<open>loadDirectory\<close> returns a directory Resource whose buffer has the length of the
  listing and holds what \<^verbatim>\<open>strncpy\<close> copies of it: all of it, when it is shorter than
  \<open>2 ^ 32\<close> and has no NUL in it.
\<close>

theorem loadDirectory_listing:
  assumes "path \<noteq> []"
    and "\<forall>p\<in>set (validIndexes w). fs_stat w (c_str (with_slash path @ p)) = None"
    and "st_mode sb AND S_IRWXU \<noteq> 0"
    and "fs_opendir w (c_str (with_slash path))"
  shows "listDirectory w h (with_slash path) =
           ''<html><head><title>'' @ listing_uri (baseDiskPath h) (with_slash path)
             @ ''</title></head><body><h1>Index of ''
             @ listing_uri (baseDiskPath h) (with_slash path) @ ''</h1><hr><br />''
             @ concat (map (\<lambda>d_name.
                              ''<a href='' @ [CHR 0x22]
                                @ listing_uri (baseDiskPath h) (with_slash path) @ c_str d_name
                                @ [CHR 0x22] @ ''>'' @ c_str d_name @ ''</a><br />'')
                        (filter (\<lambda>d_name. take 1 d_name \<noteq> ''.'')
                           (fs_readdir w (c_str (with_slash path)))))
             @ ''</body></html>''
         \<and> (\<exists>res h'. loadDirectory w path sb h = (Some res, h') \<and> directory res
               \<and> location res = with_slash path
               \<and> data_size res = word_of_nat (length (listDirectory w h (with_slash path)))
               \<and> data res =
                   map Some
                     (take (unat (data_size res)) (c_str (listDirectory w h (with_slash path)))
                      @ replicate
                          (unat (data_size res)
                             - length (c_str (listDirectory w h (with_slash path))))
                          (CHR 0x00))
               \<and> (CHR 0x00 \<notin> set (listDirectory w h (with_slash path))
                    \<and> length (listDirectory w h (with_slash path)) < 2 ^ 32
                  \<longrightarrow> data res = map Some (listDirectory w h (with_slash path))))"
proof -
  have visible: "(\<lambda>d_name. \<not> hidden d_name) = (\<lambda>d_name. take 1 d_name \<noteq> ''.'')"
    by (rule ext) (simp add: hidden_def split: list.split)
  have link: "hyperlink uri =
      (\<lambda>d_name. ''<a href='' @ [CHR 0x22] @ uri @ c_str d_name @ [CHR 0x22] @ ''>''
                  @ c_str d_name @ ''</a><br />'')" for uri
    by (rule ext) (simp add: hyperlink_def dquote_def)
  have listing: "listDirectory w h (with_slash path) =
           ''<html><head><title>'' @ listing_uri (baseDiskPath h) (with_slash path)
             @ ''</title></head><body><h1>Index of ''
             @ listing_uri (baseDiskPath h) (with_slash path) @ ''</h1><hr><br />''
             @ concat (map (\<lambda>d_name.
                              ''<a href='' @ [CHR 0x22]
                                @ listing_uri (baseDiskPath h) (with_slash path) @ c_str d_name
                                @ [CHR 0x22] @ ''>'' @ c_str d_name @ ''</a><br />'')
                        (filter (\<lambda>d_name. take 1 d_name \<noteq> ''.'')
                           (fs_readdir w (c_str (with_slash path)))))
             @ ''</body></html>''"
    using assms(4)
    by (simp add: listDirectory_def Let_def readdir_loop_eq visible link)
  have same: "listDirectory w (h\<lparr>fs_calls := cs\<rparr>) p = listDirectory w h p" for cs p
    by (simp add: listDirectory_def)
  have whole:
    "map Some (take (unat (word_of_nat (length l) :: 32 word)) (c_str l))
       @ replicate (unat (word_of_nat (length l) :: 32 word) - length (c_str l))
           (Some (CHR 0x00))
     = map Some l"
    if "CHR 0x00 \<notin> set l" and "length l < 2 ^ 32" for l :: string
  proof -
    from that(1) have "c_str l = l"
      by (auto simp: c_str_def takeWhile_eq_all_conv)
    moreover from that(2) have "unat (word_of_nat (length l) :: 32 word) = length l"
      by (simp add: unat_of_nat)
    ultimately show ?thesis
      by simp
  qed
  have "loadDirectory w path sb h =
          loadListing w (with_slash path) sb
            (h\<lparr>fs_calls := fs_calls h
               @ map (\<lambda>p. Stat (c_str (with_slash path @ p))) (validIndexes w)\<rparr>)"
    using probeIndexes_none [OF assms(2)] by (simp add: loadDirectory_def)
  then have "\<exists>res h'. loadDirectory w path sb h = (Some res, h') \<and> directory res
               \<and> location res = with_slash path
               \<and> data_size res = word_of_nat (length (listDirectory w h (with_slash path)))
               \<and> data res =
                   map Some
                     (take (unat (data_size res)) (c_str (listDirectory w h (with_slash path)))
                      @ replicate
                          (unat (data_size res)
                             - length (c_str (listDirectory w h (with_slash path))))
                          (CHR 0x00))
               \<and> (CHR 0x00 \<notin> set (listDirectory w h (with_slash path))
                    \<and> length (listDirectory w h (with_slash path)) < 2 ^ 32
                  \<longrightarrow> data res = map Some (listDirectory w h (with_slash path)))"
    using assms(3)
    by (simp add: loadListing_def Let_def same setData_def new_Resource_def strncpy_def whole)
  with listing show ?thesis by blast
qed

theorem loadDirectory_listing_witness:
  "listDirectory srv host0 ''/srv/docs/'' =
     ''<html><head><title>/</title></head><body><h1>Index of /</h1><hr><br />''
       @ ''<a href='' @ [CHR 0x22] @ ''/a'' @ [CHR 0x22] @ ''>a</a><br />''
       @ ''<a href='' @ [CHR 0x22] @ ''/b.txt'' @ [CHR 0x22] @ ''>b.txt</a><br />''
       @ ''</body></html>''
   \<and> (\<exists>h'. loadDirectory srv ''/srv/docs'' \<lparr>st_mode = 0x41ED, st_size = 4096\<rparr> host0 =
         (Some \<lparr>location = ''/srv/docs/'', directory = True, mimeType = [],
            data = map Some
              (''<html><head><title>/</title></head><body><h1>Index of /</h1><hr><br />''
                @ ''<a href='' @ [CHR 0x22] @ ''/a'' @ [CHR 0x22] @ ''>a</a><br />''
                @ ''<a href='' @ [CHR 0x22] @ ''/b.txt'' @ [CHR 0x22] @ ''>b.txt</a><br />''
                @ ''</body></html>''),
            data_size = 140\<rparr>, h'))"
  using loadDirectory_listing
    [of "''/srv/docs''" srv "\<lparr>st_mode = 0x41ED, st_size = 4096\<rparr>" host0]
  by (simp add: srv_defs model_defs)

text \<open>
  C8 as stated fails for a directory that \<^verbatim>\<open>opendir\<close> cannot open. \<^verbatim>\<open>/srv/priv\<close> has
  no index file and all three owner bits, and holds the entry \<^verbatim>\<open>key\<close>, whose name does
  not begin with a period; its listing is the empty string, with no link for \<^verbatim>\<open>key\<close>.
\<close>

theorem loadDirectory_listing_counterexample:
  "validIndexes srv = [''index.html'', ''index.htm'']
   \<and> fs_stat srv ''/srv/priv/index.html'' = None
   \<and> fs_stat srv ''/srv/priv/index.htm'' = None
   \<and> (0x41C0 :: 32 word) AND S_IFMT = S_IFDIR
   \<and> (0x41C0 :: 32 word) AND S_IRWXU = S_IRWXU
   \<and> fs_readdir srv ''/srv/priv/'' = [''.'', ''..'', ''key'']
   \<and> listDirectory srv host0 ''/srv/priv/'' = []
   \<and> fst (loadDirectory srv ''/srv/priv'' \<lparr>st_mode = 0x41C0, st_size = 4096\<rparr> host0) =
       Some \<lparr>location = ''/srv/priv/'', directory = True, mimeType = [],
              data = [], data_size = 0\<rparr>"
  by (simp add: srv_defs model_defs)

text \<open>
  C9. The URI shown in the title, the heading and the links of a listing is to be the
  path with the base path stripped from its front. The code takes the part of the path
  from the last character that occurs anywhere in the base path
  (\<^verbatim>\<open>find_last_of\<close>). For the base path \<^verbatim>\<open>/srv\<close> and the directory \<^verbatim>\<open>/srv/docs/\<close>
  that is the final slash: the listing shows \<^verbatim>\<open>/\<close> where \<^verbatim>\<open>/docs/\<close> is expected, and
  links to \<^verbatim>\<open>/a\<close> and \<^verbatim>\<open>/b.txt\<close>.
\<close>

theorem listDirectory_uri_not_stripped:
  "listing_uri ''/srv'' ''/srv/docs/'' = ''/''
   \<and> listDirectory srv host0 ''/srv/docs/'' =
       ''<html><head><title>/</title></head><body><h1>Index of /</h1><hr><br />''
       @ ''<a href='' @ [dquote] @ ''/a'' @ [dquote] @ ''>a</a><br />''
       @ ''<a href='' @ [dquote] @ ''/b.txt'' @ [dquote] @ ''>b.txt</a><br />''
       @ ''</body></html>''"
  by (simp add: srv_defs model_defs)

subsection \<open>Failures\<close>

text \<open>
  C4. For every URI that is empty or longer than 255 characters, \<open>getResource\<close> returns
  a miss at once: the host it returns is the host it was given, so the cache is
  unchanged and no call to the filesystem was made.
\<close>

theorem getResource_rejects_bad_uri:
  "uri = [] \<or> 255 < length uri \<Longrightarrow> getResource w uri h = (None, h)"
  by (auto simp: getResource_def)

theorem getResource_rejects_bad_uri_witness:
  "getResource srv [] host0 = (None, host0) \<and>
   getResource srv (replicate 256 (CHR ''a'')) host0 = (None, host0)"
  using getResource_rejects_bad_uri [of "[]" srv host0]
    getResource_rejects_bad_uri [of "replicate 256 (CHR ''a'')" srv host0]
  by simp

text \<open>
  C6. A path that exists and is neither a regular file nor a directory is to give a
  miss. The code tests \<^verbatim>\<open>st_mode & S_IFDIR\<close>, and the type of a socket,
  \<^verbatim>\<open>0140000\<close>, has the bit of \<^verbatim>\<open>S_IFDIR\<close>: the socket \<^verbatim>\<open>/srv/sock\<close> is handed to
  \<open>loadDirectory\<close>, and \<open>getResource\<close> returns a directory Resource with an empty
  buffer.
\<close>

theorem getResource_socket_served:
  "fs_stat srv ''/srv/sock'' = Some \<lparr>st_mode = 0xC1ED, st_size = 0\<rparr>
   \<and> (0xC1ED :: 32 word) AND S_IFMT = S_IFSOCK
   \<and> fst (getResource srv ''/sock'' host0) =
       Some \<lparr>location = ''/srv/sock/'', directory = True, mimeType = [],
              data = [], data_size = 0\<rparr>"
  by (simp add: srv_defs model_defs)

text \<open>
  C7. Every failure of a load is to end as a miss. When \<^verbatim>\<open>opendir\<close> fails,
  \<open>listDirectory\<close> returns the empty string, and \<open>loadDirectory\<close> wraps it: for the
  directory \<^verbatim>\<open>/srv/priv\<close>, which has the owner bits and cannot be opened, \<open>getResource\<close>
  returns a Resource with an empty buffer and keeps it in the cache.
\<close>

theorem getResource_unopened_directory_served:
  "\<not> fs_opendir srv ''/srv/priv/''
   \<and> listDirectory srv host0 ''/srv/priv/'' = []
   \<and> (let (r, h) = getResource srv ''/priv'' host0
      in r = Some \<lparr>location = ''/srv/priv/'', directory = True, mimeType = [],
                    data = [], data_size = 0\<rparr>
         \<and> cacheMap h ''/srv/priv/'' = r)"
  by (simp add: srv_defs model_defs)

end
